theory Spec2Isabelle
  imports Main "HOL-Library.AList"
begin

section \<open>CDK values used by the constructs\<close>

text \<open>
  The enumerations of the CDK library that the constructs mention. Each lists the member
  the source uses next to its siblings, so that "the runtime is Python 3.12" is a
  statement about the construct and not about the type.
\<close>

datatype runtime = PYTHON_3_11 | PYTHON_3_12 | NODEJS_20_X

datatype tracing = ACTIVE | PASS_THROUGH | DISABLED

datatype retention_days = ONE_DAY | ONE_WEEK | ONE_MONTH | ONE_YEAR

datatype subnet_type = PRIVATE_ISOLATED | PRIVATE_WITH_EGRESS | PUBLIC

datatype effect = ALLOW | DENY

text \<open>\<open>cdk.Duration.seconds(n)\<close> and \<open>cdk.Duration.minutes(n)\<close>.\<close>

datatype duration = Seconds nat | Minutes nat

fun toSeconds :: "duration \<Rightarrow> nat" where
  "toSeconds (Seconds n) = n"
| "toSeconds (Minutes n) = n * 60"

text \<open>
  Roles and layers are objects created by other constructs and handed over in the
  props; a construct only passes the reference on, so a reference is the name of the
  object.
\<close>

type_synonym role_ref = string
type_synonym layer_ref = string

text \<open>\<open>network.ts\<close>: the VPC of \<open>NetworkConstruct\<close>.\<close>

record subnet_configuration =
  subnet_name :: string
  subnetType :: subnet_type
  cidrMask :: nat

record ec2_vpc =
  vpc_id :: string
  maxAzs :: nat
  natGateways :: nat
  subnetConfiguration :: "subnet_configuration list"

definition NetworkConstruct_vpc :: ec2_vpc where
  "NetworkConstruct_vpc =
     \<lparr>vpc_id = ''ReviewBotVPC'', maxAzs = 2, natGateways = 1,
      subnetConfiguration =
        [\<lparr>subnet_name = ''public'', subnetType = PUBLIC, cidrMask = 24\<rparr>,
         \<lparr>subnet_name = ''private'', subnetType = PRIVATE_WITH_EGRESS, cidrMask = 24\<rparr>]\<rparr>"

record security_group =
  sg_id :: string
  sg_vpc :: ec2_vpc
  sg_description :: string
  allowAllOutbound :: bool

record policy_statement =
  stmt_effect :: effect
  actions :: "string list"
  resources :: "string list"

section \<open>Object literals\<close>

text \<open>
  A JavaScript object with string keys keeps its keys in insertion order, and writing a
  key that exists replaces the value where the key stands. An object literal
  \<open>{...a, k: v, ...}\<close> writes the entries of \<open>a\<close> and then its own, left to right, so
  a later entry overrides an earlier one with the same key.
\<close>

definition object_literal :: "(string \<times> 'v) list \<Rightarrow> (string \<times> 'v) list" where
  "object_literal entries = fold (\<lambda>(k, v) obj. AList.update k v obj) entries []"

text \<open>The values that occur in the props of a \<open>lambda.Function\<close>.\<close>

datatype prop_value =
    VRuntime runtime
  | VRole role_ref
  | VTracing tracing
  | VRetention retention_days
  | VEnvironment "(string \<times> string) list"
  | VString string
  | VAsset string
  | VDuration duration
  | VNumber nat
  | VLayers "layer_ref list"
  | VVpc ec2_vpc
  | VSubnetSelection subnet_type
  | VSecurityGroups "security_group list"

type_synonym function_props = "(string \<times> prop_value) list"

section \<open>lambda.ts: the construct ReviewBotLambda\<close>

record review_bot_lambda_props =
  role :: role_ref
  requestsLayer :: layer_ref
  networkxLayer :: layer_ref
  vpc :: ec2_vpc

record lambda_function =
  construct_id :: string
  fn_props :: function_props

text \<open>The widgets of the dashboard: a metric is named by the method that makes it and
  the function it is read from.\<close>

datatype metric =
    metricInvocations string
  | metricErrors string
  | metricThrottles string
  | metricDuration string

record graph_widget =
  title :: string
  left :: "metric list"
  width :: nat

record dashboard =
  dashboardName :: string
  rows :: "graph_widget list list"

text \<open>
  The state of the construct while its constructor runs: the \<open>functions\<close> object, the
  ids of the child constructs created in its scope (in creation order), the statements
  added to the policy of a role, and the dashboards.
\<close>

record review_bot_lambda =
  "functions" :: "(string \<times> lambda_function) list"
  children :: "string list"
  principalPolicy :: "(role_ref \<times> policy_statement) list"
  dashboards :: "dashboard list"

definition commonProps :: "review_bot_lambda_props \<Rightarrow> function_props" where
  "commonProps props = object_literal
     [(''runtime'', VRuntime PYTHON_3_12),
      (''role'', VRole (role props)),
      (''tracing'', VTracing DISABLED),
      (''logRetention'', VRetention ONE_MONTH),
      (''environment'', VEnvironment (object_literal
         [(''POWERTOOLS_SERVICE_NAME'', ''pr-reviewer''),
          (''LOG_LEVEL'', ''INFO'')]))]"

text \<open>\<open>new C(this, id, ...)\<close> registers the id among the children of \<open>this\<close>.\<close>

definition add_child :: "string \<Rightarrow> review_bot_lambda \<Rightarrow> review_bot_lambda" where
  "add_child cid this = this\<lparr>children := children this @ [cid]\<rparr>"

text \<open>\<open>this.functions.key = new lambda.Function(this, id, props)\<close>.\<close>

definition new_Function ::
  "string \<Rightarrow> string \<Rightarrow> function_props \<Rightarrow> review_bot_lambda \<Rightarrow> review_bot_lambda" where
  "new_Function key cid fprops this =
     (let this = add_child cid this
      in this\<lparr>functions :=
           AList.update key \<lparr>construct_id = cid, fn_props = fprops\<rparr> (functions this)\<rparr>)"

definition initialProcessing_props :: "review_bot_lambda_props \<Rightarrow> function_props" where
  "initialProcessing_props props = object_literal (commonProps props @
     [(''functionName'', VString ''PRR-InitialProcessingFunction''),
      (''description'', VString ''Process initial webhook payload''),
      (''code'', VAsset ''src/lambda/initial-processing''),
      (''handler'', VString ''index.lambda_handler''),
      (''timeout'', VDuration (Seconds 30)),
      (''memorySize'', VNumber 256),
      (''layers'', VLayers [requestsLayer props])])"

definition splitPr_props :: "review_bot_lambda_props \<Rightarrow> function_props" where
  "splitPr_props props = object_literal (commonProps props @
     [(''functionName'', VString ''PRR-SplitPRIntoChunksFunction''),
      (''description'', VString ''Split PR into analyzable chunks''),
      (''code'', VAsset ''src/lambda/split-pr''),
      (''handler'', VString ''index.lambda_handler''),
      (''timeout'', VDuration (Minutes 5)),
      (''memorySize'', VNumber 512),
      (''layers'', VLayers [requestsLayer props, networkxLayer props])])"

definition processChunk_props :: "review_bot_lambda_props \<Rightarrow> function_props" where
  "processChunk_props props = object_literal (commonProps props @
     [(''functionName'', VString ''PRR-ProcessChunkFunction''),
      (''description'', VString ''Process individual PR chunk''),
      (''code'', VAsset ''src/lambda/process-chunk''),
      (''handler'', VString ''index.lambda_handler''),
      (''timeout'', VDuration (Minutes 10)),
      (''memorySize'', VNumber 1024),
      (''layers'', VLayers [requestsLayer props])])"

definition aggregateResults_props :: "review_bot_lambda_props \<Rightarrow> function_props" where
  "aggregateResults_props props = object_literal (commonProps props @
     [(''functionName'', VString ''PRR-AggregateResultsFunction''),
      (''description'', VString ''Aggregate review results''),
      (''code'', VAsset ''src/lambda/aggregate-results''),
      (''handler'', VString ''index.lambda_handler''),
      (''timeout'', VDuration (Minutes 5)),
      (''memorySize'', VNumber 512)])"

definition PostPRCommentSecurityGroup :: "review_bot_lambda_props \<Rightarrow> security_group" where
  "PostPRCommentSecurityGroup props =
     \<lparr>sg_id = ''PostPRCommentSecurityGroup'', sg_vpc = vpc props,
      sg_description = ''Security group for PR Comment Lambda'',
      allowAllOutbound = True\<rparr>"

definition postPrComment_props :: "review_bot_lambda_props \<Rightarrow> function_props" where
  "postPrComment_props props = object_literal (commonProps props @
     [(''functionName'', VString ''PRR-PostPRCommentFunction''),
      (''description'', VString ''Post review comments to PR''),
      (''code'', VAsset ''src/lambda/post-pr-comment''),
      (''handler'', VString ''index.lambda_handler''),
      (''timeout'', VDuration (Minutes 2)),
      (''memorySize'', VNumber 256),
      (''layers'', VLayers [requestsLayer props]),
      (''vpc'', VVpc (vpc props)),
      (''vpcSubnets'', VSubnetSelection PRIVATE_WITH_EGRESS),
      (''securityGroups'', VSecurityGroups [PostPRCommentSecurityGroup props])])"

definition vpc_policy_statement :: policy_statement where
  "vpc_policy_statement =
     \<lparr>stmt_effect = ALLOW,
      actions = [''ec2:CreateNetworkInterface'', ''ec2:DescribeNetworkInterfaces'',
                 ''ec2:DeleteNetworkInterface'', ''ec2:AssignPrivateIpAddresses'',
                 ''ec2:UnassignPrivateIpAddresses''],
      resources = [''*'']\<rparr>"

definition addToPrincipalPolicy ::
  "role_ref \<Rightarrow> policy_statement \<Rightarrow> review_bot_lambda \<Rightarrow> review_bot_lambda" where
  "addToPrincipalPolicy r stmt this =
     this\<lparr>principalPolicy := principalPolicy this @ [(r, stmt)]\<rparr>"

definition sendSlackNotification_props :: "review_bot_lambda_props \<Rightarrow> function_props" where
  "sendSlackNotification_props props = object_literal (commonProps props @
     [(''functionName'', VString ''PRR-SendSlackNotificationFunction''),
      (''description'', VString ''Send Slack notifications''),
      (''code'', VAsset ''src/lambda/send-slack-notification''),
      (''handler'', VString ''index.lambda_handler''),
      (''timeout'', VDuration (Minutes 1)),
      (''memorySize'', VNumber 256),
      (''layers'', VLayers [requestsLayer props])])"

definition handleError_props :: "review_bot_lambda_props \<Rightarrow> function_props" where
  "handleError_props props = object_literal (commonProps props @
     [(''functionName'', VString ''PRR-HandleErrorFunction''),
      (''description'', VString ''Handle workflow errors''),
      (''code'', VAsset ''src/lambda/handle-error''),
      (''handler'', VString ''index.lambda_handler''),
      (''timeout'', VDuration (Minutes 1)),
      (''memorySize'', VNumber 256),
      (''layers'', VLayers [requestsLayer props])])"

subsection \<open>createCloudWatchDashboard\<close>

text \<open>\<open>xs.slice(i, j)\<close> for \<open>0 \<le> i \<le> j\<close>: the elements at the indices from \<open>i\<close> up to
  but not including \<open>j\<close>, as many of them as the list has.\<close>

definition slice :: "nat \<Rightarrow> nat \<Rightarrow> 'a list \<Rightarrow> 'a list" where
  "slice i j xs = take (j - i) (drop i xs)"

text \<open>\<open>dashboard.addWidgets(...ws)\<close> puts the widgets of one call on a row of their
  own; a call without widgets adds nothing.\<close>

definition addWidgets :: "graph_widget list \<Rightarrow> dashboard \<Rightarrow> dashboard" where
  "addWidgets ws d = (if ws = [] then d else d\<lparr>rows := rows d @ [ws]\<rparr>)"

definition function_widget :: "string \<times> lambda_function \<Rightarrow> graph_widget" where
  "function_widget = (\<lambda>(name, fn).
     \<lparr>title = name @ '' Metrics'',
      left = [metricInvocations (construct_id fn), metricErrors (construct_id fn),
              metricThrottles (construct_id fn), metricDuration (construct_id fn)],
      width = 12\<rparr>)"

text \<open>The \<open>forEach\<close> over \<open>Object.entries(this.functions)\<close>, pushing one widget per entry.\<close>

definition push_widgets :: "(string \<times> lambda_function) list \<Rightarrow> graph_widget list" where
  "push_widgets entries = fold (\<lambda>e widgets. widgets @ [function_widget e]) entries []"

text \<open>The loop \<open>for (let i = 0; i < widgets.length; i += 2)\<close>.\<close>

function addWidgetRows :: "nat \<Rightarrow> graph_widget list \<Rightarrow> dashboard \<Rightarrow> dashboard" where
  "addWidgetRows i widgets d =
     (if i < length widgets
      then addWidgetRows (i + 2) widgets (addWidgets (slice i (i + 2) widgets) d)
      else d)"
  by pat_completeness auto
termination
  by (relation "measure (\<lambda>(i, widgets, d). length widgets - i)") auto

declare addWidgetRows.simps [simp del]

definition createCloudWatchDashboard :: "review_bot_lambda \<Rightarrow> review_bot_lambda" where
  "createCloudWatchDashboard this =
     (let this = add_child ''ReviewBotDashboard'' this;
          d = \<lparr>dashboardName = ''PR-ReviewBot-Metrics'', rows = []\<rparr>;
          widgets = push_widgets (functions this);
          d = addWidgetRows 0 widgets d
      in this\<lparr>dashboards := dashboards this @ [d]\<rparr>)"

subsection \<open>The constructor\<close>

definition ReviewBotLambda :: "review_bot_lambda_props \<Rightarrow> review_bot_lambda" where
  "ReviewBotLambda props =
     (let this = \<lparr>functions = [], children = [], principalPolicy = [], dashboards = []\<rparr>;
          this = new_Function ''initialProcessing'' ''InitialProcessing''
                   (initialProcessing_props props) this;
          this = new_Function ''splitPr'' ''SplitPR'' (splitPr_props props) this;
          this = new_Function ''processChunk'' ''ProcessChunk'' (processChunk_props props) this;
          this = new_Function ''aggregateResults'' ''AggregateResults''
                   (aggregateResults_props props) this;
          this = add_child ''PostPRCommentSecurityGroup'' this;
          this = new_Function ''postPrComment'' ''PostPRComment''
                   (postPrComment_props props) this;
          this = addToPrincipalPolicy (role props) vpc_policy_statement this;
          this = new_Function ''sendSlackNotification'' ''SendSlackNotification''
                   (sendSlackNotification_props props) this;
          this = new_Function ''handleError'' ''HandleError'' (handleError_props props) this
      in createCloudWatchDashboard this)"

text \<open>Reading a prop of a function of the construct by the function's key.\<close>

definition function_prop :: "review_bot_lambda \<Rightarrow> string \<Rightarrow> string \<Rightarrow> prop_value option" where
  "function_prop this key p =
     (case map_of (functions this) key of
        None \<Rightarrow> None
      | Some fn \<Rightarrow> map_of (fn_props fn) p)"

section \<open>api-gateway.ts: the construct ReviewBotApi\<close>

datatype integration_type = AWS | AWS_PROXY | HTTP | HTTP_PROXY | MOCK

datatype endpoint_type = EDGE | REGIONAL | PRIVATE

datatype api_model = EMPTY_MODEL | ERROR_MODEL

datatype removal_policy = DESTROY | RETAIN | SNAPSHOT

datatype method_logging_level = LOG_OFF | LOG_ERROR | LOG_INFO

text \<open>The log group of the API and the options of its deployment stage (the format of
  the access log, a text, is left out).\<close>

record log_group =
  logGroupName :: string
  log_retention :: retention_days
  removalPolicy :: removal_policy

record deploy_options =
  stageName :: string
  tracingEnabled :: bool
  loggingLevel :: method_logging_level
  dataTraceEnabled :: bool
  metricsEnabled :: bool

text \<open>The ARN of a log group is known at deployment only; it is kept as a text that
  names the log group.\<close>

definition logGroupArn :: "log_group \<Rightarrow> string" where
  "logGroupArn lg = ''${'' @ logGroupName lg @ ''.Arn}''"

record iam_role =
  role_id :: string
  assumedBy :: string
  role_description :: string
  role_policy :: "policy_statement list"

text \<open>\<open>role.addToPolicy(statement)\<close>.\<close>

definition addToPolicy :: "policy_statement \<Rightarrow> iam_role \<Rightarrow> iam_role" where
  "addToPolicy stmt r = r\<lparr>role_policy := role_policy r @ [stmt]\<rparr>"

subsection \<open>The mapping templates\<close>

text \<open>
  The templates are programs of the gateway's template language. Two functions of its
  \<open>$util\<close> object are called; they belong to the gateway, not to this repository, and
  are parameters of the model: \<open>escapeJavaScript\<close> on strings, and \<open>parseJson\<close>, which
  gives for a JSON text the text of each of its members.
\<close>

record vtl_util =
  escapeJavaScript :: "string \<Rightarrow> string"
  parseJson :: "string \<Rightarrow> string \<Rightarrow> string"

text \<open>
  \<open>s.replace(target, replacement)\<close> on the strings of the template language: every
  occurrence of \<open>target\<close> in \<open>s\<close>, found from left to right, is replaced; the search
  goes on behind the occurrence. An empty target matches before every character and at
  the end.
\<close>

function replace :: "string \<Rightarrow> string \<Rightarrow> string \<Rightarrow> string" where
  "replace target replacement s =
     (if s = [] then (if target = [] then replacement else [])
      else if target = [] then replacement @ hd s # replace target replacement (tl s)
      else if take (length target) s = target
        then replacement @ replace target replacement (drop (length target) s)
      else hd s # replace target replacement (tl s))"
  by pat_completeness auto
termination
  by (relation "measure (\<lambda>(target, replacement, s). length s)") auto

declare replace.simps [simp del]

text \<open>
  The JSON object the request template writes, as the texts of its two members. The
  \<open>input\<close> member is written between double quotes by the template; the field holds
  the characters between them as the template writes them.
\<close>

record start_execution_request =
  input_member :: string
  stateMachineArn_member :: string

text \<open>
  The request template for \<open>application/json\<close>; \<open>arn\<close> is
  \<open>props.stateMachine.stateMachineArn\<close>, \<open>input_body\<close> is \<open>$input.body\<close>.
\<close>

definition requestTemplate :: "vtl_util \<Rightarrow> string \<Rightarrow> string \<Rightarrow> start_execution_request" where
  \<open>requestTemplate util arn input_body =
     (let body = input_body;
          cleaned = replace [CHR 0x27] [] body
      in \<lparr>input_member =
            ''{'' @ [CHR 0x5C] @ ''"body'' @ [CHR 0x5C] @ ''": ''
              @ escapeJavaScript util cleaned @ ''}'',
          stateMachineArn_member = arn\<rparr>)\<close>

text \<open>
  The response template of the 200 integration response:
  \<open>JSON.stringify({executionArn: ..., startDate: ...})\<close> with both values references
  into the parsed body of the integration's response.
\<close>

definition responseTemplate :: "vtl_util \<Rightarrow> string \<Rightarrow> string" where
  \<open>responseTemplate util input_body =
     ''{"executionArn":"'' @ parseJson util input_body ''executionArn''
       @ ''","startDate":"'' @ parseJson util input_body ''startDate'' @ ''"}''\<close>

subsection \<open>Resources, methods and the integration\<close>

record integration_response =
  statusCode :: string
  responseTemplates :: "(string \<times> (string \<Rightarrow> string)) list"

record integration_options =
  credentialsRole :: iam_role
  requestTemplates :: "(string \<times> (string \<Rightarrow> start_execution_request)) list"
  integrationResponses :: "integration_response list"

record integration =
  integration_kind :: integration_type
  integrationHttpMethod :: string
  uri :: string
  options :: integration_options

record method_response =
  response_statusCode :: string
  responseModels :: "(string \<times> api_model) list"

record api_method =
  httpMethod :: string
  method_integration :: integration
  methodResponses :: "method_response list"

text \<open>
  The resources of the REST API are kept by their paths (the root is the empty path),
  each with its methods in the order they were added. \<open>addResource\<close> returns the path of
  the new resource, which is what a later \<open>addMethod\<close> refers to.
\<close>

type_synonym resource_path = "string list"

record review_bot_api =
  restApiName :: string
  endpointTypes :: "endpoint_type list"
  deployOptions :: deploy_options
  api_logGroup :: log_group
  api_resources :: "(resource_path \<times> api_method list) list"
  api_roles :: "iam_role list"
  api_outputs :: "(string \<times> string) list"

definition addResource ::
  "resource_path \<Rightarrow> string \<Rightarrow> review_bot_api \<Rightarrow> resource_path \<times> review_bot_api" where
  "addResource parent pathPart api =
     (parent @ [pathPart],
      api\<lparr>api_resources := api_resources api @ [(parent @ [pathPart], [])]\<rparr>)"

definition addMethod :: "resource_path \<Rightarrow> api_method \<Rightarrow> review_bot_api \<Rightarrow> review_bot_api" where
  "addMethod path m api =
     api\<lparr>api_resources :=
           map (\<lambda>(p, ms). if p = path then (p, ms @ [m]) else (p, ms)) (api_resources api)\<rparr>"

record review_bot_api_props =
  stateMachineArn :: string

definition webhook_integration :: "vtl_util \<Rightarrow> string \<Rightarrow> review_bot_api_props \<Rightarrow> iam_role \<Rightarrow> integration" where
  "webhook_integration util region props apiRole =
     \<lparr>integration_kind = AWS,
      integrationHttpMethod = ''POST'',
      uri = ''arn:aws:apigateway:'' @ region @ '':states:action/StartExecution'',
      options =
        \<lparr>credentialsRole = apiRole,
         requestTemplates =
           [(''application/json'', requestTemplate util (stateMachineArn props))],
         integrationResponses =
           [\<lparr>statusCode = ''200'',
             responseTemplates = [(''application/json'', responseTemplate util)]\<rparr>]\<rparr>\<rparr>"

definition ReviewBotApi :: "vtl_util \<Rightarrow> string \<Rightarrow> review_bot_api_props \<Rightarrow> review_bot_api" where
  "ReviewBotApi util region props =
     (let logGroup = \<lparr>logGroupName = ''/aws/apigateway/PR-Review-Bot-API'',
                      log_retention = ONE_MONTH, removalPolicy = DESTROY\<rparr>;
          api = \<lparr>restApiName = ''PR Review Bot API'', endpointTypes = [REGIONAL],
                 deployOptions =
                   \<lparr>stageName = ''prod'', tracingEnabled = False, loggingLevel = LOG_INFO,
                    dataTraceEnabled = True, metricsEnabled = True\<rparr>,
                 api_logGroup = logGroup, api_resources = [([], [])], api_roles = [],
                 api_outputs = []\<rparr>;
          apiGatewayLoggingRole =
            \<lparr>role_id = ''ApiGatewayLoggingRole'', assumedBy = ''apigateway.amazonaws.com'',
             role_description = ''Role for API Gateway to write logs to CloudWatch'',
             role_policy = []\<rparr>;
          apiGatewayLoggingRole = addToPolicy
            \<lparr>stmt_effect = ALLOW,
             actions = [''logs:CreateLogStream'', ''logs:PutLogEvents'',
                        ''logs:DescribeLogGroups'', ''logs:DescribeLogStreams''],
             resources = [logGroupArn logGroup, logGroupArn logGroup @ '':*'']\<rparr>
            apiGatewayLoggingRole;
          api = api\<lparr>api_roles := api_roles api @ [apiGatewayLoggingRole]\<rparr>;
          apiRole = \<lparr>role_id = ''ApiGatewayRole'', assumedBy = ''apigateway.amazonaws.com'',
                     role_description = ''Role for API Gateway to invoke Step Functions'',
                     role_policy = []\<rparr>;
          apiRole = addToPolicy
                      \<lparr>stmt_effect = ALLOW, actions = [''states:StartExecution''],
                       resources = [stateMachineArn props]\<rparr> apiRole;
          api = api\<lparr>api_roles := api_roles api @ [apiRole]\<rparr>;
          (webhook, api) = addResource [] ''webhook'' api;
          api = addMethod webhook
                  \<lparr>httpMethod = ''POST'',
                   method_integration = webhook_integration util region props apiRole,
                   methodResponses =
                     [\<lparr>response_statusCode = ''200'',
                       responseModels = [(''application/json'', EMPTY_MODEL)]\<rparr>]\<rparr> api
      in api\<lparr>api_outputs := api_outputs api @
               [(''WebhookUrl'', ''Webhook URL for PR Review Bot''),
                (''ApiGatewayLogGroup'', ''API Gateway Log Group ARN'')]\<rparr>)"

subsection \<open>A request to the deployed API\<close>

text \<open>
  What the gateway does with a request that carries a JSON body: the method of the
  resource at the request's path with the request's HTTP method is looked up; when there
  is none the request reaches no integration. Otherwise the body goes through the
  integration's request template for \<open>application/json\<close>, and the result is sent to
  the integration's \<open>uri\<close>.
\<close>

record integration_call =
  call_uri :: string
  call_request :: start_execution_request

definition find_method :: "review_bot_api \<Rightarrow> string \<Rightarrow> resource_path \<Rightarrow> api_method option" where
  "find_method api verb path =
     (case map_of (api_resources api) path of
        None \<Rightarrow> None
      | Some ms \<Rightarrow> find (\<lambda>m. httpMethod m = verb) ms)"

definition handle_request ::
  "review_bot_api \<Rightarrow> string \<Rightarrow> resource_path \<Rightarrow> string \<Rightarrow> integration_call option" where
  "handle_request api verb path body =
     (case find_method api verb path of
        None \<Rightarrow> None
      | Some m \<Rightarrow>
          (case map_of (requestTemplates (options (method_integration m))) ''application/json'' of
             None \<Rightarrow> None
           | Some template \<Rightarrow>
               Some \<lparr>call_uri = uri (method_integration m), call_request = template body\<rparr>))"


section \<open>The stack\<close>

text \<open>
  The stack wires the constructs together. The constructs \<open>SecretsAndParameters\<close>,
  \<open>ReviewBotRole\<close>, \<open>LambdaLayers\<close>, \<open>StateMachineRole\<close> and \<open>ReviewBotStepFunctions\<close>
  are defined in files that are not part of the sources at hand; what the stack reads
  from them is a parameter of the model. \<open>'cfg\<close> is the type of the stack's own props.
\<close>

record 'cfg other_constructs =
  ReviewBotRole_role :: "'cfg \<Rightarrow> role_ref"
  LambdaLayers_requestsLayer :: layer_ref
  LambdaLayers_networkxLayer :: layer_ref
  StateMachineRole_role :: "(string \<times> lambda_function) list \<Rightarrow> role_ref"
  ReviewBotStepFunctions_stateMachineArn ::
    "(string \<times> lambda_function) list \<Rightarrow> role_ref \<Rightarrow> string"

text \<open>An output is kept as its name and its description.\<close>

record review_bot_stack =
  stack_lambdas :: review_bot_lambda
  stack_api :: review_bot_api
  stack_outputs :: "(string \<times> string) list"

definition AmazonBedrockPrReviewbotStack ::
  "'cfg other_constructs \<Rightarrow> vtl_util \<Rightarrow> string \<Rightarrow> 'cfg \<Rightarrow> review_bot_stack" where
  "AmazonBedrockPrReviewbotStack others util region props =
     (let lambdaRole = ReviewBotRole_role others props;
          lambdas = ReviewBotLambda
            \<lparr>role = lambdaRole,
             requestsLayer = LambdaLayers_requestsLayer others,
             networkxLayer = LambdaLayers_networkxLayer others,
             vpc = NetworkConstruct_vpc\<rparr>;
          stateMachineRole = StateMachineRole_role others (functions lambdas);
          stateMachine = ReviewBotStepFunctions_stateMachineArn others
                           (functions lambdas) stateMachineRole;
          api = ReviewBotApi util region \<lparr>stateMachineArn = stateMachine\<rparr>
      in \<lparr>stack_lambdas = lambdas, stack_api = api,
          stack_outputs = api_outputs api @ [(''StateMachineArn'', ''State Machine ARN'')]\<rparr>)"

section \<open>The pipeline components and their workers\<close>

text \<open>
  The components of the pipeline that run as workers, and the key under which
  \<open>lambda.ts\<close> keeps the worker of each (the source introduces the seven functions as
  "Initial Processing", "Split PR", "Process Chunk", "Aggregate Results", "Post PR
  Comment", "Send Slack Notification" and "Handle Error").
\<close>

datatype component =
    WebhookIngestion
  | ChunkSplitting
  | ChunkAnalysis
  | ResultAggregation
  | Publication
  | Notification
  | ErrorHandling

fun worker_key :: "component \<Rightarrow> string" where
  "worker_key WebhookIngestion = ''initialProcessing''"
| "worker_key ChunkSplitting = ''splitPr''"
| "worker_key ChunkAnalysis = ''processChunk''"
| "worker_key ResultAggregation = ''aggregateResults''"
| "worker_key Publication = ''postPrComment''"
| "worker_key Notification = ''sendSlackNotification''"
| "worker_key ErrorHandling = ''handleError''"

definition all_components :: "component list" where
  "all_components =
     [WebhookIngestion, ChunkSplitting, ChunkAnalysis, ResultAggregation, Publication,
      Notification, ErrorHandling]"

text \<open>The layers of a function; a function defined without the prop has none.\<close>

definition layers_of :: "lambda_function \<Rightarrow> layer_ref list" where
  "layers_of fn =
     (case map_of (fn_props fn) ''layers'' of
        Some (VLayers ls) \<Rightarrow> ls
      | _ \<Rightarrow> [])"

text \<open>The props a function definition of \<open>lambda.ts\<close> sets beside the common ones.\<close>

definition own_props :: "string \<Rightarrow> string set" where
  "own_props key =
     {''functionName'', ''description'', ''code'', ''handler'', ''timeout'', ''memorySize'',
      ''layers''}
     \<union> (if key = ''postPrComment'' then {''vpc'', ''vpcSubnets'', ''securityGroups''} else {})"

text \<open>Splitting a list into rows of two from the front; the reference for the loop of
  \<open>createCloudWatchDashboard\<close>.\<close>

fun rows_of_two :: "'a list \<Rightarrow> 'a list list" where
  "rows_of_two [] = []"
| "rows_of_two [x] = [[x]]"
| "rows_of_two (x # y # zs) = [x, y] # rows_of_two zs"

section \<open>The orchestrator of the specification\<close>

text \<open>
  Modelled from the spec: the state machine that \<open>ReviewBotStepFunctions\<close> deploys is
  defined in a file (\<open>constructs/step-functions\<close>) that is not part of the sources at
  hand. The stages are those of section 4.1 of the specification.
\<close>

datatype stage =
    Ingested | Splitting | Analyzing | Aggregating | Publishing | Notifying
  | Succeeded | Failed

text \<open>
  Modelled from the spec: the failure detail of a ChunkResult (sections 3 and 5), an
  analysis that failed or the stage timeout; the state machine's definition is not part
  of the sources.
\<close>

datatype failure_cause = AnalysisFailure | Timeout

text \<open>
  Modelled from the spec: the status of a ChunkResult (section 3), \<open>ok\<close> or \<open>failed\<close>
  with its failure detail; the state machine's definition is not part of the sources.
\<close>

datatype chunk_status = ok | failed failure_cause

text \<open>
  Modelled from the spec: the WorkflowExecution record of section 3, whose definition is
  not part of the sources: the execution's identity, its current stage, the chunks in
  the Chunk Splitter's output order (a chunkId is a sequence index), the chunks not yet
  dispatched, the dispatched chunk tasks still in flight, the terminal states of the
  chunk tasks, and the reference to the published review.
\<close>

record WorkflowExecution =
  executionId :: string
  stage :: stage
  chunks :: "nat list"
  waiting :: "nat list"
  inFlight :: "nat list"
  results :: "(nat \<times> chunk_status) list"
  reviewLocation :: "string option"

text \<open>
  Modelled from the spec: what can happen to an execution (sections 4.1 and 5); the
  state machine's definition is not part of the sources. The Chunk Splitter returns a
  number of chunks; the next waiting chunk is dispatched; an analysis in flight reaches
  a terminal state; the stage timeout elapses; the stage joins; the Aggregator, the
  Publisher (with the location of the review) and the Notifier return; a stage fails
  fatally.
\<close>

datatype event =
    BeginSplit
  | SplitDone nat
  | Dispatch
  | Complete nat chunk_status
  | StageTimeout
  | Join
  | Aggregated
  | Published string
  | Notified
  | Fatal

text \<open>
  Modelled from the spec: \<open>start\<close> of section 4.1; the orchestrator's code is not part
  of the sources.
\<close>

definition start :: "string \<Rightarrow> WorkflowExecution" where
  "start eid =
     \<lparr>executionId = eid, stage = Ingested, chunks = [], waiting = [], inFlight = [],
      results = [], reviewLocation = None\<rparr>"

text \<open>
  Modelled from the spec: one transition of the orchestrator (sections 4.1, 4.2 and 5),
  whose code is not part of the sources; \<open>None\<close> when the event cannot happen in the
  state. \<open>maxConcurrent\<close> is the configured maximum of concurrent in-flight analyses.
  An empty change set skips the Analyzing stage. A chunk is dispatched, in the
  splitter's order, only while fewer than \<open>maxConcurrent\<close> analyses are in flight. On
  the stage timeout the chunks still pending are marked \<open>failed\<close> with a timeout cause
  and the stage proceeds. \<open>Failed\<close> is reachable from every non-terminal state.
\<close>

fun step :: "nat \<Rightarrow> event \<Rightarrow> WorkflowExecution \<Rightarrow> WorkflowExecution option" where
  "step maxConcurrent BeginSplit e =
     (if stage e = Ingested then Some (e\<lparr>stage := Splitting\<rparr>) else None)"
| "step maxConcurrent (SplitDone n) e =
     (if stage e \<noteq> Splitting then None
      else if n = 0 then Some (e\<lparr>stage := Aggregating\<rparr>)
      else Some (e\<lparr>stage := Analyzing, chunks := [0..<n], waiting := [0..<n]\<rparr>))"
| "step maxConcurrent Dispatch e =
     (case waiting e of
        [] \<Rightarrow> None
      | c # cs \<Rightarrow>
          if stage e = Analyzing \<and> length (inFlight e) < maxConcurrent
          then Some (e\<lparr>waiting := cs, inFlight := inFlight e @ [c]\<rparr>)
          else None)"
| "step maxConcurrent (Complete c st) e =
     (if stage e = Analyzing \<and> c \<in> set (inFlight e)
      then Some (e\<lparr>inFlight := remove1 c (inFlight e), results := results e @ [(c, st)]\<rparr>)
      else None)"
| "step maxConcurrent StageTimeout e =
     (if stage e = Analyzing
      then Some (e\<lparr>stage := Aggregating,
                   results := results e @ map (\<lambda>c. (c, failed Timeout)) (inFlight e @ waiting e),
                   inFlight := [], waiting := []\<rparr>)
      else None)"
| "step maxConcurrent Join e =
     (if stage e = Analyzing \<and> waiting e = [] \<and> inFlight e = []
      then Some (e\<lparr>stage := Aggregating\<rparr>)
      else None)"
| "step maxConcurrent Aggregated e =
     (if stage e = Aggregating then Some (e\<lparr>stage := Publishing\<rparr>) else None)"
| "step maxConcurrent (Published location) e =
     (if stage e = Publishing
      then Some (e\<lparr>stage := Notifying, reviewLocation := Some location\<rparr>)
      else None)"
| "step maxConcurrent Notified e =
     (if stage e = Notifying then Some (e\<lparr>stage := Succeeded\<rparr>) else None)"
| "step maxConcurrent Fatal e =
     (if stage e = Succeeded \<or> stage e = Failed then None else Some (e\<lparr>stage := Failed\<rparr>))"

text \<open>
  Modelled from the spec: an execution is a sequence of such transitions; the
  orchestrator's code is not part of the sources.
\<close>

fun run :: "nat \<Rightarrow> event list \<Rightarrow> WorkflowExecution \<Rightarrow> WorkflowExecution option" where
  "run maxConcurrent [] e = Some e"
| "run maxConcurrent (ev # evs) e =
     (case step maxConcurrent ev e of
        None \<Rightarrow> None
      | Some e' \<Rightarrow> run maxConcurrent evs e')"


text \<open>
  Modelled from the spec: an invariant of the orchestrator above (whose code is not part
  of the sources). It holds of every state the orchestrator can reach from \<open>start eid\<close>
  with the maximum \<open>maxConcurrent\<close>: the identity is kept; at most \<open>maxConcurrent\<close>
  analyses are in flight; every chunk is in exactly one of the three places (has a
  result, is in flight, is waiting); outside the Analyzing stage (and a failed
  execution) nothing is in flight or waiting; before the split there are no results; and
  a review that is being notified or has succeeded has a location.
\<close>

definition orchestrator_invariant :: "nat \<Rightarrow> string \<Rightarrow> WorkflowExecution \<Rightarrow> bool" where
  "orchestrator_invariant maxConcurrent eid e \<longleftrightarrow>
     executionId e = eid
     \<and> length (inFlight e) \<le> maxConcurrent
     \<and> distinct (map fst (results e) @ inFlight e @ waiting e)
     \<and> set (map fst (results e)) \<union> set (inFlight e) \<union> set (waiting e) = set (chunks e)
     \<and> (stage e \<noteq> Analyzing \<and> stage e \<noteq> Failed \<longrightarrow> inFlight e = [] \<and> waiting e = [])
     \<and> (stage e = Ingested \<or> stage e = Splitting \<longrightarrow> results e = [])
     \<and> (stage e = Notifying \<or> stage e = Succeeded \<longrightarrow> reviewLocation e \<noteq> None)"

section \<open>Concrete deployments and executions\<close>

text \<open>
  Modelled from the spec: the recognized configuration options of section 6, as the
  stack's own props; the type of these props (\<open>ReviewBotProps\<close>) is declared in a file
  that is not part of the sources.
\<close>

record configuration_options =
  maxChunkSize :: nat
  maxConcurrentAnalyses :: nat
  analysisTimeoutSeconds :: nat
  maxAnalysisAttempts :: nat
  analyzingStageTimeoutSeconds :: nat

definition example_options :: configuration_options where
  "example_options =
     \<lparr>maxChunkSize = 20000, maxConcurrentAnalyses = 5, analysisTimeoutSeconds = 30,
      maxAnalysisAttempts = 3, analyzingStageTimeoutSeconds = 900\<rparr>"

definition example_props :: review_bot_lambda_props where
  "example_props =
     \<lparr>role = ''ReviewBotRole'', requestsLayer = ''RequestsLayer'',
      networkxLayer = ''NetworkxLayer'', vpc = NetworkConstruct_vpc\<rparr>"

definition example_others :: "configuration_options other_constructs" where
  "example_others =
     \<lparr>ReviewBotRole_role = (\<lambda>cfg. ''ReviewBotRole''),
      LambdaLayers_requestsLayer = ''RequestsLayer'',
      LambdaLayers_networkxLayer = ''NetworkxLayer'',
      StateMachineRole_role = (\<lambda>fs. ''StateMachineRole''),
      ReviewBotStepFunctions_stateMachineArn =
        (\<lambda>fs r. ''arn:aws:states:us-east-1:111122223333:stateMachine:PRReviewBot'')\<rparr>"

text \<open>An escaping function that puts a backslash before the two quotes, the backslash and
  the slash, and a parser that knows one response body.\<close>

definition example_util :: vtl_util where
  "example_util =
     \<lparr>escapeJavaScript =
        concat \<circ> map (\<lambda>c. if c \<in> {CHR 0x22, CHR 0x27, CHR 0x5C, CHR ''/''}
                           then [CHR 0x5C, c] else [c]),
      parseJson = (\<lambda>body member.
        case map_of [(''executionArn'', ''arn:aws:states:us-east-1:111122223333:execution:PRReviewBot:run-1''),
                     (''startDate'', ''1.7E9'')] member of
          Some v \<Rightarrow> v
        | None \<Rightarrow> [])\<rparr>"

text \<open>An execution with three chunks and at most two analyses in flight; the third
  chunk fails, the review is published all the same.\<close>

definition example_events :: "event list" where
  "example_events =
     [BeginSplit, SplitDone 3, Dispatch, Dispatch, Complete 1 ok, Dispatch,
      Complete 0 ok, Complete 2 (failed AnalysisFailure), Join, Aggregated,
      Published ''https://code.example/pr/7#review-1'', Notified]"

section \<open>Evaluating the constructs\<close>

subsection \<open>The functions of ReviewBotLambda\<close>

lemma commonProps_entries:
  "commonProps props =
     [(''runtime'', VRuntime PYTHON_3_12),
      (''role'', VRole (role props)),
      (''tracing'', VTracing DISABLED),
      (''logRetention'', VRetention ONE_MONTH),
      (''environment'', VEnvironment
         [(''POWERTOOLS_SERVICE_NAME'', ''pr-reviewer''), (''LOG_LEVEL'', ''INFO'')])]"
  by (simp add: commonProps_def object_literal_def)

lemma initialProcessing_entries:
  "initialProcessing_props props = commonProps props @
     [(''functionName'', VString ''PRR-InitialProcessingFunction''),
      (''description'', VString ''Process initial webhook payload''),
      (''code'', VAsset ''src/lambda/initial-processing''),
      (''handler'', VString ''index.lambda_handler''),
      (''timeout'', VDuration (Seconds 30)),
      (''memorySize'', VNumber 256),
      (''layers'', VLayers [requestsLayer props])]"
  by (simp add: initialProcessing_props_def commonProps_entries object_literal_def)

lemma splitPr_entries:
  "splitPr_props props = commonProps props @
     [(''functionName'', VString ''PRR-SplitPRIntoChunksFunction''),
      (''description'', VString ''Split PR into analyzable chunks''),
      (''code'', VAsset ''src/lambda/split-pr''),
      (''handler'', VString ''index.lambda_handler''),
      (''timeout'', VDuration (Minutes 5)),
      (''memorySize'', VNumber 512),
      (''layers'', VLayers [requestsLayer props, networkxLayer props])]"
  by (simp add: splitPr_props_def commonProps_entries object_literal_def)

lemma processChunk_entries:
  "processChunk_props props = commonProps props @
     [(''functionName'', VString ''PRR-ProcessChunkFunction''),
      (''description'', VString ''Process individual PR chunk''),
      (''code'', VAsset ''src/lambda/process-chunk''),
      (''handler'', VString ''index.lambda_handler''),
      (''timeout'', VDuration (Minutes 10)),
      (''memorySize'', VNumber 1024),
      (''layers'', VLayers [requestsLayer props])]"
  by (simp add: processChunk_props_def commonProps_entries object_literal_def)

lemma aggregateResults_entries:
  "aggregateResults_props props = commonProps props @
     [(''functionName'', VString ''PRR-AggregateResultsFunction''),
      (''description'', VString ''Aggregate review results''),
      (''code'', VAsset ''src/lambda/aggregate-results''),
      (''handler'', VString ''index.lambda_handler''),
      (''timeout'', VDuration (Minutes 5)),
      (''memorySize'', VNumber 512)]"
  by (simp add: aggregateResults_props_def commonProps_entries object_literal_def)

lemma postPrComment_entries:
  "postPrComment_props props = commonProps props @
     [(''functionName'', VString ''PRR-PostPRCommentFunction''),
      (''description'', VString ''Post review comments to PR''),
      (''code'', VAsset ''src/lambda/post-pr-comment''),
      (''handler'', VString ''index.lambda_handler''),
      (''timeout'', VDuration (Minutes 2)),
      (''memorySize'', VNumber 256),
      (''layers'', VLayers [requestsLayer props]),
      (''vpc'', VVpc (vpc props)),
      (''vpcSubnets'', VSubnetSelection PRIVATE_WITH_EGRESS),
      (''securityGroups'', VSecurityGroups [PostPRCommentSecurityGroup props])]"
  by (simp add: postPrComment_props_def commonProps_entries object_literal_def)

lemma sendSlackNotification_entries:
  "sendSlackNotification_props props = commonProps props @
     [(''functionName'', VString ''PRR-SendSlackNotificationFunction''),
      (''description'', VString ''Send Slack notifications''),
      (''code'', VAsset ''src/lambda/send-slack-notification''),
      (''handler'', VString ''index.lambda_handler''),
      (''timeout'', VDuration (Minutes 1)),
      (''memorySize'', VNumber 256),
      (''layers'', VLayers [requestsLayer props])]"
  by (simp add: sendSlackNotification_props_def commonProps_entries object_literal_def)

lemma handleError_entries:
  "handleError_props props = commonProps props @
     [(''functionName'', VString ''PRR-HandleErrorFunction''),
      (''description'', VString ''Handle workflow errors''),
      (''code'', VAsset ''src/lambda/handle-error''),
      (''handler'', VString ''index.lambda_handler''),
      (''timeout'', VDuration (Minutes 1)),
      (''memorySize'', VNumber 256),
      (''layers'', VLayers [requestsLayer props])]"
  by (simp add: handleError_props_def commonProps_entries object_literal_def)

lemmas function_entries =
  initialProcessing_entries splitPr_entries processChunk_entries aggregateResults_entries
  postPrComment_entries sendSlackNotification_entries handleError_entries

lemma functions_ReviewBotLambda:
  "functions (ReviewBotLambda props) =
     [(''initialProcessing'',
         \<lparr>construct_id = ''InitialProcessing'', fn_props = initialProcessing_props props\<rparr>),
      (''splitPr'', \<lparr>construct_id = ''SplitPR'', fn_props = splitPr_props props\<rparr>),
      (''processChunk'',
         \<lparr>construct_id = ''ProcessChunk'', fn_props = processChunk_props props\<rparr>),
      (''aggregateResults'',
         \<lparr>construct_id = ''AggregateResults'', fn_props = aggregateResults_props props\<rparr>),
      (''postPrComment'',
         \<lparr>construct_id = ''PostPRComment'', fn_props = postPrComment_props props\<rparr>),
      (''sendSlackNotification'',
         \<lparr>construct_id = ''SendSlackNotification'',
          fn_props = sendSlackNotification_props props\<rparr>),
      (''handleError'', \<lparr>construct_id = ''HandleError'', fn_props = handleError_props props\<rparr>)]"
  by (simp add: ReviewBotLambda_def new_Function_def add_child_def addToPrincipalPolicy_def
      createCloudWatchDashboard_def Let_def)

text \<open>The ids of the constructs created in the scope are pairwise different, so no
  construction is refused for a name that is taken.\<close>

lemma children_ReviewBotLambda:
  "children (ReviewBotLambda props) =
     [''InitialProcessing'', ''SplitPR'', ''ProcessChunk'', ''AggregateResults'',
      ''PostPRCommentSecurityGroup'', ''PostPRComment'', ''SendSlackNotification'',
      ''HandleError'', ''ReviewBotDashboard'']"
  by (simp add: ReviewBotLambda_def new_Function_def add_child_def addToPrincipalPolicy_def
      createCloudWatchDashboard_def Let_def)

lemma distinct_children: "distinct (children (ReviewBotLambda props))"
  by (simp add: children_ReviewBotLambda)

lemma principalPolicy_ReviewBotLambda:
  "principalPolicy (ReviewBotLambda props) = [(role props, vpc_policy_statement)]"
  by (simp add: ReviewBotLambda_def new_Function_def add_child_def addToPrincipalPolicy_def
      createCloudWatchDashboard_def Let_def)

lemma functionNames_ReviewBotLambda:
  "map (\<lambda>(key, fn). map_of (fn_props fn) ''functionName'') (functions (ReviewBotLambda props)) =
     [Some (VString ''PRR-InitialProcessingFunction''),
      Some (VString ''PRR-SplitPRIntoChunksFunction''),
      Some (VString ''PRR-ProcessChunkFunction''),
      Some (VString ''PRR-AggregateResultsFunction''),
      Some (VString ''PRR-PostPRCommentFunction''),
      Some (VString ''PRR-SendSlackNotificationFunction''),
      Some (VString ''PRR-HandleErrorFunction'')]"
  by (simp add: functions_ReviewBotLambda function_entries commonProps_entries)

lemma stack_lambdas_eq:
  "stack_lambdas (AmazonBedrockPrReviewbotStack others util region props) =
     ReviewBotLambda
       \<lparr>role = ReviewBotRole_role others props,
        requestsLayer = LambdaLayers_requestsLayer others,
        networkxLayer = LambdaLayers_networkxLayer others,
        vpc = NetworkConstruct_vpc\<rparr>"
  by (simp add: AmazonBedrockPrReviewbotStack_def Let_def)

lemma unique_entry:
  assumes "distinct (map fst xs)" and "k \<in> set (map fst xs)"
  shows "\<exists>!e. e \<in> set xs \<and> fst e = k"
proof -
  from assms(2) obtain e where e: "e \<in> set xs" "fst e = k" by auto
  show ?thesis
  proof (rule ex1I)
    show "e \<in> set xs \<and> fst e = k" using e by simp
  next
    fix e' assume "e' \<in> set xs \<and> fst e' = k"
    with e assms(1) show "e' = e"
      by (metis eq_key_imp_eq_value prod.collapse)
  qed
qed

lemma component_cases: "c \<in> set all_components"
  by (cases c) (simp_all add: all_components_def)

lemma worker_key_inj: "worker_key c = worker_key c' \<Longrightarrow> c = c'"
  by (cases c; cases c') simp_all

subsection \<open>The dashboard\<close>

lemma push_widgets_acc:
  "fold (\<lambda>e widgets. widgets @ [f e]) entries acc = acc @ map f entries"
  by (induction entries arbitrary: acc) simp_all

lemma push_widgets_map: "push_widgets entries = map function_widget entries"
  by (simp add: push_widgets_def push_widgets_acc)

lemma rows_of_two_unfold:
  "xs \<noteq> [] \<Longrightarrow> rows_of_two xs = take 2 xs # rows_of_two (drop 2 xs)"
  by (cases xs rule: rows_of_two.cases) simp_all

text \<open>The loop adds the rows of two of the widgets from index \<open>i\<close> on.\<close>

lemma addWidgetRows_rows:
  "addWidgetRows i widgets d = d\<lparr>rows := rows d @ rows_of_two (drop i widgets)\<rparr>"
proof (induction i widgets d rule: addWidgetRows.induct)
  case (1 i widgets d)
  show ?case
  proof (cases "i < length widgets")
    case True
    then have nonempty: "drop i widgets \<noteq> []" by simp
    have row: "addWidgets (slice i (i + 2) widgets) d
                 = d\<lparr>rows := rows d @ [take 2 (drop i widgets)]\<rparr>"
      using nonempty by (simp add: slice_def addWidgets_def)
    have "addWidgetRows i widgets d
            = addWidgetRows (i + 2) widgets (addWidgets (slice i (i + 2) widgets) d)"
      using True by (subst addWidgetRows.simps) simp
    also have "\<dots> = (addWidgets (slice i (i + 2) widgets) d)
            \<lparr>rows := rows (addWidgets (slice i (i + 2) widgets) d)
                       @ rows_of_two (drop (i + 2) widgets)\<rparr>"
      using "1.IH" [OF True] .
    also have "\<dots> = d\<lparr>rows := rows d @ rows_of_two (drop i widgets)\<rparr>"
      unfolding row by (simp add: rows_of_two_unfold [OF nonempty] add.commute)
    finally show ?thesis .
  next
    case False
    then show ?thesis by (subst addWidgetRows.simps) simp
  qed
qed

lemma concat_rows_of_two: "concat (rows_of_two xs) = xs"
  by (induction xs rule: rows_of_two.induct) simp_all

lemma rows_of_two_lengths: "r \<in> set (rows_of_two xs) \<Longrightarrow> length r = 1 \<or> length r = 2"
  by (induction xs rule: rows_of_two.induct) auto

lemma length_rows_of_two: "length (rows_of_two xs) = (length xs + 1) div 2"
  by (induction xs rule: rows_of_two.induct) simp_all

lemma rows_of_two_Nil: "rows_of_two xs = [] \<longleftrightarrow> xs = []"
  by (cases xs rule: rows_of_two.cases) simp_all

lemma last_rows_of_two_odd:
  "odd (length xs) \<Longrightarrow> length (last (rows_of_two xs)) = 1"
  by (induction xs rule: rows_of_two.induct) (auto simp: rows_of_two_Nil)

lemma butlast_rows_of_two:
  "r \<in> set (butlast (rows_of_two xs)) \<Longrightarrow> length r = 2"
  by (induction xs rule: rows_of_two.induct) (auto simp: rows_of_two_Nil split: if_splits)

lemma dashboard_of_createCloudWatchDashboard:
  "dashboards (createCloudWatchDashboard this) = dashboards this @
     [\<lparr>dashboardName = ''PR-ReviewBot-Metrics'',
       rows = rows_of_two (map function_widget (functions this))\<rparr>]"
  by (simp add: createCloudWatchDashboard_def Let_def add_child_def addWidgetRows_rows
      push_widgets_map)

lemma rows_ReviewBotLambda:
  "map (map title) (rows (last (dashboards (ReviewBotLambda props)))) =
     [[''initialProcessing Metrics'', ''splitPr Metrics''],
      [''processChunk Metrics'', ''aggregateResults Metrics''],
      [''postPrComment Metrics'', ''sendSlackNotification Metrics''],
      [''handleError Metrics'']]"
  by (simp add: ReviewBotLambda_def dashboard_of_createCloudWatchDashboard
       new_Function_def add_child_def addToPrincipalPolicy_def Let_def function_widget_def)

subsection \<open>The API\<close>

lemma replace_char_removed: "replace [c] [] s = filter (\<lambda>x. x \<noteq> c) s"
proof (induction s)
  case Nil
  show ?case by (subst replace.simps) simp
next
  case (Cons x xs)
  show ?case
  proof (cases "x = c")
    case True
    then show ?thesis using Cons.IH by (subst replace.simps) simp
  next
    case False
    then show ?thesis using Cons.IH by (subst replace.simps) simp
  qed
qed

lemma filter_changes: "c \<in> set s \<Longrightarrow> filter (\<lambda>x. x \<noteq> c) s \<noteq> s"
  by (metis (mono_tags, lifting) filter_id_conv)

lemma filter_shorter: "c \<in> set s \<Longrightarrow> length (filter (\<lambda>x. x \<noteq> c) s) < length s"
  by (metis (mono_tags, lifting) length_filter_less)

lemma filter_keeps: "c \<notin> set s \<Longrightarrow> filter (\<lambda>x. x \<noteq> c) s = s"
  by (induction s) auto

lemma requestTemplate_eq:
  \<open>requestTemplate util arn body =
     \<lparr>input_member = ''{'' @ [CHR 0x5C] @ ''"body'' @ [CHR 0x5C] @ ''": ''
         @ escapeJavaScript util (filter (\<lambda>c. c \<noteq> CHR 0x27) body) @ ''}'',
      stateMachineArn_member = arn\<rparr>\<close>
  by (simp add: requestTemplate_def Let_def replace_char_removed)

lemma api_resources_ReviewBotApi:
  "map (\<lambda>(path, ms). (path, map httpMethod ms)) (api_resources (ReviewBotApi util region props))
     = [([], []), ([''webhook''], [''POST''])]"
  by (simp add: ReviewBotApi_def Let_def addResource_def addMethod_def)

lemma api_roles_ReviewBotApi:
  "map role_id (api_roles (ReviewBotApi util region props))
     = [''ApiGatewayLoggingRole'', ''ApiGatewayRole'']
   \<and> concat (map (\<lambda>r. concat (map actions (role_policy r)))
        (api_roles (ReviewBotApi util region props)))
     = [''logs:CreateLogStream'', ''logs:PutLogEvents'', ''logs:DescribeLogGroups'',
        ''logs:DescribeLogStreams'', ''states:StartExecution'']"
  by (simp add: ReviewBotApi_def Let_def addResource_def addMethod_def addToPolicy_def)

lemma find_method_ReviewBotApi:
  "find_method (ReviewBotApi util region props) verb path =
     (if verb = ''POST'' \<and> path = [''webhook'']
      then Some \<lparr>httpMethod = ''POST'',
                  method_integration = webhook_integration util region props
                    \<lparr>role_id = ''ApiGatewayRole'', assumedBy = ''apigateway.amazonaws.com'',
                     role_description = ''Role for API Gateway to invoke Step Functions'',
                     role_policy = [\<lparr>stmt_effect = ALLOW, actions = [''states:StartExecution''],
                                     resources = [stateMachineArn props]\<rparr>]\<rparr>,
                  methodResponses =
                    [\<lparr>response_statusCode = ''200'',
                      responseModels = [(''application/json'', EMPTY_MODEL)]\<rparr>]\<rparr>
      else None)"
  by (simp add: find_method_def ReviewBotApi_def Let_def addResource_def addMethod_def
      addToPolicy_def)

lemma handle_request_ReviewBotApi:
  "handle_request (ReviewBotApi util region props) verb path body =
     (if verb = ''POST'' \<and> path = [''webhook'']
      then Some \<lparr>call_uri = ''arn:aws:apigateway:'' @ region @ '':states:action/StartExecution'',
                  call_request = requestTemplate util (stateMachineArn props) body\<rparr>
      else None)"
  by (simp add: handle_request_def find_method_ReviewBotApi webhook_integration_def)


lemma example_escape_keeps_quote_free:
  "\<forall>s. CHR 0x27 \<notin> set s \<longrightarrow> CHR 0x27 \<notin> set (escapeJavaScript example_util s)"
proof (intro allI impI)
  fix s :: string
  assume "CHR 0x27 \<notin> set s"
  then show "CHR 0x27 \<notin> set (escapeJavaScript example_util s)"
    by (induction s) (auto simp: example_util_def)
qed

subsection \<open>The orchestrator\<close>

lemma invariant_start: "orchestrator_invariant maxConcurrent eid (start eid)"
  by (simp add: orchestrator_invariant_def start_def)

lemma invariant_step:
  assumes "orchestrator_invariant maxConcurrent eid e"
    and "step maxConcurrent ev e = Some e'"
  shows "orchestrator_invariant maxConcurrent eid e'"
proof (cases ev)
  case BeginSplit
  with assms show ?thesis
    by (auto simp: orchestrator_invariant_def simp del: set_map split: if_splits)
next
  case (SplitDone n)
  with assms show ?thesis
    by (auto simp: orchestrator_invariant_def simp del: set_map split: if_splits)
next
  case Dispatch
  with assms show ?thesis
    by (auto simp: orchestrator_invariant_def simp del: set_map split: if_splits list.splits)
next
  case (Complete c st)
  with assms show ?thesis
    by (auto simp: orchestrator_invariant_def length_remove1 simp del: set_map split: if_splits)
next
  case StageTimeout
  with assms show ?thesis
    by (auto simp: orchestrator_invariant_def comp_def simp del: set_map split: if_splits)
next
  case Join
  with assms show ?thesis
    by (auto simp: orchestrator_invariant_def simp del: set_map split: if_splits)
next
  case Aggregated
  with assms show ?thesis
    by (auto simp: orchestrator_invariant_def simp del: set_map split: if_splits)
next
  case (Published location)
  with assms show ?thesis
    by (auto simp: orchestrator_invariant_def simp del: set_map split: if_splits)
next
  case Notified
  with assms show ?thesis
    by (auto simp: orchestrator_invariant_def simp del: set_map split: if_splits)
next
  case Fatal
  with assms show ?thesis
    by (auto simp: orchestrator_invariant_def simp del: set_map split: if_splits)
qed

lemma invariant_run:
  "orchestrator_invariant maxConcurrent eid e \<Longrightarrow> run maxConcurrent evs e = Some e'
     \<Longrightarrow> orchestrator_invariant maxConcurrent eid e'"
proof (induction evs arbitrary: e)
  case Nil
  then show ?case by simp
next
  case (Cons ev evs)
  then show ?case
    by (auto split: option.splits dest: invariant_step)
qed

lemma reachable_invariant:
  "run maxConcurrent evs (start eid) = Some e \<Longrightarrow> orchestrator_invariant maxConcurrent eid e"
  using invariant_run [OF invariant_start] .

text \<open>The example execution, step by step.\<close>

lemma run_example_events:
  "run 2 example_events (start ''exec-1'') =
     Some \<lparr>executionId = ''exec-1'', stage = Succeeded, chunks = [0, 1, 2], waiting = [],
           inFlight = [],
           results = [(1, ok), (0, ok), (2, failed AnalysisFailure)],
           reviewLocation = Some ''https://code.example/pr/7#review-1''\<rparr>"
  by (simp add: example_events_def start_def upt_rec)

lemma run_example_analyzing:
  "run 2 (take 4 example_events) (start ''exec-1'') =
     Some \<lparr>executionId = ''exec-1'', stage = Analyzing, chunks = [0, 1, 2], waiting = [2],
           inFlight = [0, 1], results = [], reviewLocation = None\<rparr>"
  by (simp add: example_events_def start_def upt_rec)

section \<open>The claims\<close>

text \<open>
  Claim C1. For every deployed stack there is exactly one worker function per pipeline
  component: webhook ingestion (initial processing), chunk splitting, chunk analysis,
  result aggregation, publication (PR comment), notification (Slack) and error handling;
  seven functions in total, and no component is backed by more than one function.

  The keys of the \<open>functions\<close> object of the stack's \<open>ReviewBotLambda\<close> are the worker
  keys of the seven components, in this order; the keys, the construct ids and the
  function names are pairwise different; every component has exactly one entry, and every entry belongs to
  exactly one component.
\<close>

theorem one_worker_per_component:
  fixes others :: "'cfg other_constructs"
  defines "fs \<equiv> (\<lambda>util region props.
     functions (stack_lambdas (AmazonBedrockPrReviewbotStack others util region props)))"
  shows "map fst (fs util region props) = map worker_key all_components
    \<and> length (fs util region props) = 7
    \<and> distinct (map fst (fs util region props))
    \<and> distinct (map (construct_id \<circ> snd) (fs util region props))
    \<and> distinct (map (\<lambda>(key, fn). map_of (fn_props fn) ''functionName'')
          (fs util region props))
    \<and> (\<forall>c. \<exists>!e. e \<in> set (fs util region props) \<and> fst e = worker_key c)
    \<and> (\<forall>e \<in> set (fs util region props). \<exists>!c. worker_key c = fst e)"
proof -
  have keys: "map fst (fs util region props) = map worker_key all_components"
    by (simp add: fs_def stack_lambdas_eq functions_ReviewBotLambda all_components_def)
  have len: "length (fs util region props) = 7"
    by (simp add: fs_def stack_lambdas_eq functions_ReviewBotLambda)
  have dist: "distinct (map fst (fs util region props))"
    by (simp add: fs_def stack_lambdas_eq functions_ReviewBotLambda)
  have ids: "distinct (map (construct_id \<circ> snd) (fs util region props))"
    by (simp add: fs_def stack_lambdas_eq functions_ReviewBotLambda)
  have names: "distinct (map (\<lambda>(key, fn). map_of (fn_props fn) ''functionName'')
          (fs util region props))"
    by (simp add: fs_def stack_lambdas_eq functionNames_ReviewBotLambda)
  have one: "\<exists>!e. e \<in> set (fs util region props) \<and> fst e = worker_key c" for c
  proof (rule unique_entry [OF dist])
    show "worker_key c \<in> set (map fst (fs util region props))"
      using component_cases [of c] by (simp only: keys set_map) (rule imageI)
  qed
  have owner: "\<exists>!c. worker_key c = fst e" if "e \<in> set (fs util region props)" for e
  proof -
    from that have "fst e \<in> set (map fst (fs util region props))" by simp
    then obtain c where "worker_key c = fst e" unfolding keys by auto
    then show ?thesis by (metis worker_key_inj)
  qed
  from keys len dist ids names one owner show ?thesis by blast
qed

theorem one_worker_per_component_witness:
  "map fst (functions (stack_lambdas
      (AmazonBedrockPrReviewbotStack example_others example_util ''us-east-1''
         example_options))) =
     [''initialProcessing'', ''splitPr'', ''processChunk'', ''aggregateResults'',
      ''postPrComment'', ''sendSlackNotification'', ''handleError'']"
  using one_worker_per_component
          [of example_others example_util "''us-east-1''" example_options]
  by (simp add: all_components_def)

text \<open>
  Claim C2. The deployed API exposes exactly one inbound trigger: a POST method on the
  /webhook resource, whose AWS integration invokes the Step Functions StartExecution
  action on the configured state machine, passing the caller's JSON payload as the
  execution input; no other method or resource starts an execution.

  The payload is not what is passed. A POST of a payload with a single quote and a POST
  of the same payload without it make the same call of StartExecution, whose input is
  neither of the two payloads: the template deletes the single quotes, escapes the rest
  and puts it into an object as the member \<open>body\<close>.
\<close>

theorem payload_is_not_the_execution_input:
  \<open>handle_request (ReviewBotApi example_util ''us-east-1'' \<lparr>stateMachineArn = ''arn:sm''\<rparr>)
      ''POST'' [''webhook''] ''{"t":"don't"}'' =
     Some \<lparr>call_uri = ''arn:aws:apigateway:us-east-1:states:action/StartExecution'',
           call_request =
             \<lparr>input_member = ''{'' @ [CHR 0x5C] @ ''"body'' @ [CHR 0x5C] @ ''": {''
                  @ [CHR 0x5C] @ ''"t'' @ [CHR 0x5C] @ ''":'' @ [CHR 0x5C] @ ''"dont''
                  @ [CHR 0x5C] @ ''"}}'',
              stateMachineArn_member = ''arn:sm''\<rparr>\<rparr>
   \<and> handle_request (ReviewBotApi example_util ''us-east-1'' \<lparr>stateMachineArn = ''arn:sm''\<rparr>)
      ''POST'' [''webhook''] ''{"t":"don't"}'' =
     handle_request (ReviewBotApi example_util ''us-east-1'' \<lparr>stateMachineArn = ''arn:sm''\<rparr>)
      ''POST'' [''webhook''] ''{"t":"dont"}''
   \<and> ''{"t":"don't"}'' \<noteq> ''{"t":"dont"}''
   \<and> map_option (input_member \<circ> call_request)
        (handle_request (ReviewBotApi example_util ''us-east-1'' \<lparr>stateMachineArn = ''arn:sm''\<rparr>)
           ''POST'' [''webhook''] ''{"t":"don't"}'') \<noteq> Some ''{"t":"don't"}''\<close>
  by (simp add: handle_request_ReviewBotApi requestTemplate_eq example_util_def)

text \<open>
  Claim C2, as amended. The deployed API exposes exactly one inbound trigger: a POST
  method on the /webhook resource, whose AWS integration invokes the Step Functions
  StartExecution action on the configured state machine; the execution input is a JSON
  object whose member \<open>body\<close> is the caller's payload with every single quote removed
  and then JavaScript-escaped (the escaped payload itself when the payload has no
  single quote); no other method or resource starts an execution.

  The API has the root, without methods, and \<open>webhook\<close> with the one method POST. A
  request reaches an integration exactly when it is a POST to \<open>/webhook\<close>; the call
  then goes to the StartExecution action with the configured state machine's ARN, and
  its input is the object with the member \<open>body\<close>, written from the payload by the
  template's \<open>replace\<close>, which removes exactly the single quotes, and the gateway's
  \<open>escapeJavaScript\<close>. The integration is of type AWS, and the policy of its
  credentials role allows \<open>states:StartExecution\<close> on the configured state machine and
  nothing else.
\<close>

theorem webhook_is_the_only_trigger:
  \<open>map (\<lambda>(path, ms). (path, map httpMethod ms)) (api_resources (ReviewBotApi util region props))
     = [([], []), ([''webhook''], [''POST''])]
   \<and> (handle_request (ReviewBotApi util region props) verb path body \<noteq> None
        \<longleftrightarrow> verb = ''POST'' \<and> path = [''webhook''])
   \<and> handle_request (ReviewBotApi util region props) ''POST'' [''webhook''] body =
       Some \<lparr>call_uri = ''arn:aws:apigateway:'' @ region @ '':states:action/StartExecution'',
             call_request =
               \<lparr>input_member = ''{'' @ [CHR 0x5C] @ ''"body'' @ [CHR 0x5C] @ ''": ''
                  @ escapeJavaScript util (replace [CHR 0x27] [] body) @ ''}'',
                stateMachineArn_member = stateMachineArn props\<rparr>\<rparr>
   \<and> replace [CHR 0x27] [] body = filter (\<lambda>c. c \<noteq> CHR 0x27) body
   \<and> (CHR 0x27 \<notin> set body \<longrightarrow>
        handle_request (ReviewBotApi util region props) ''POST'' [''webhook''] body =
          Some \<lparr>call_uri = ''arn:aws:apigateway:'' @ region @ '':states:action/StartExecution'',
                call_request =
                  \<lparr>input_member = ''{'' @ [CHR 0x5C] @ ''"body'' @ [CHR 0x5C] @ ''": ''
                     @ escapeJavaScript util body @ ''}'',
                   stateMachineArn_member = stateMachineArn props\<rparr>\<rparr>)
   \<and> (\<exists>m. find_method (ReviewBotApi util region props) ''POST'' [''webhook''] = Some m
          \<and> integration_kind (method_integration m) = AWS
          \<and> integrationHttpMethod (method_integration m) = ''POST''
          \<and> role_policy (credentialsRole (options (method_integration m))) =
                [\<lparr>stmt_effect = ALLOW, actions = [''states:StartExecution''],
                  resources = [stateMachineArn props]\<rparr>])\<close>
  by (simp add: api_resources_ReviewBotApi handle_request_ReviewBotApi
      requestTemplate_eq replace_char_removed filter_keeps find_method_ReviewBotApi
      webhook_integration_def)

theorem webhook_is_the_only_trigger_witness:
  \<open>CHR 0x27 \<notin> set ''{"action":"opened"}''
   \<and> handle_request (ReviewBotApi example_util ''us-east-1'' \<lparr>stateMachineArn = ''arn:sm''\<rparr>)
      ''POST'' [''webhook''] ''{"action":"opened"}'' =
     Some \<lparr>call_uri = ''arn:aws:apigateway:us-east-1:states:action/StartExecution'',
           call_request =
             \<lparr>input_member = ''{'' @ [CHR 0x5C] @ ''"body'' @ [CHR 0x5C] @ ''": {''
                  @ [CHR 0x5C] @ ''"action'' @ [CHR 0x5C] @ ''":'' @ [CHR 0x5C] @ ''"opened''
                  @ [CHR 0x5C] @ ''"}}'',
              stateMachineArn_member = ''arn:sm''\<rparr>\<rparr>
   \<and> handle_request (ReviewBotApi example_util ''us-east-1'' \<lparr>stateMachineArn = ''arn:sm''\<rparr>)
      ''GET'' [''webhook''] ''{}'' = None
   \<and> handle_request (ReviewBotApi example_util ''us-east-1'' \<lparr>stateMachineArn = ''arn:sm''\<rparr>)
      ''POST'' [] ''{}'' = None\<close>
  using webhook_is_the_only_trigger [of example_util "''us-east-1''"
      "\<lparr>stateMachineArn = ''arn:sm''\<rparr>" "''POST''" "[''webhook'']" \<open>''{"action":"opened"}''\<close>]
    webhook_is_the_only_trigger [of example_util "''us-east-1''"
      "\<lparr>stateMachineArn = ''arn:sm''\<rparr>" "''GET''" "[''webhook'']" "''{}''"]
    webhook_is_the_only_trigger [of example_util "''us-east-1''"
      "\<lparr>stateMachineArn = ''arn:sm''\<rparr>" "''POST''" "[]" "''{}''"]
  by (simp add: example_util_def)

text \<open>
  Claim C3. For every webhook request body, the execution input forwarded to
  StartExecution is the body with every single-quote character removed and then
  JavaScript-escaped; consequently, for any payload that contains a single quote the
  execution input differs from the payload received (ingestion is not
  content-preserving), and for payloads without single quotes the content is preserved
  up to escaping.

  A POST of a body to \<open>/webhook\<close> of the deployed API calls the StartExecution action,
  and the input member of the call is the object with the member \<open>body\<close>, whose text
  is the escaped body without its single quotes (the template's \<open>replace\<close> removes
  exactly them). A body with a single quote differs from what is escaped, is longer,
  and makes the same call as its quote-free version, so the body cannot be recovered
  from the call; and when the escaping puts no single quote into a text that has none,
  the input of the call is not the body. For a body without a single quote the body
  itself is what is escaped and forwarded.
\<close>

theorem single_quotes_removed_then_escaped:
  \<open>handle_request (ReviewBotApi util region props) ''POST'' [''webhook''] body =
      Some \<lparr>call_uri = ''arn:aws:apigateway:'' @ region @ '':states:action/StartExecution'',
            call_request =
              \<lparr>input_member = ''{'' @ [CHR 0x5C] @ ''"body'' @ [CHR 0x5C] @ ''": ''
                 @ escapeJavaScript util (filter (\<lambda>c. c \<noteq> CHR 0x27) body) @ ''}'',
               stateMachineArn_member = stateMachineArn props\<rparr>\<rparr>
   \<and> replace [CHR 0x27] [] body = filter (\<lambda>c. c \<noteq> CHR 0x27) body
   \<and> (CHR 0x27 \<in> set body \<longrightarrow>
         filter (\<lambda>c. c \<noteq> CHR 0x27) body \<noteq> body
         \<and> length (filter (\<lambda>c. c \<noteq> CHR 0x27) body) < length body
         \<and> handle_request (ReviewBotApi util region props) ''POST'' [''webhook'']
               (filter (\<lambda>c. c \<noteq> CHR 0x27) body)
             = handle_request (ReviewBotApi util region props) ''POST'' [''webhook''] body)
   \<and> (CHR 0x27 \<in> set body
        \<and> (\<forall>s. CHR 0x27 \<notin> set s \<longrightarrow> CHR 0x27 \<notin> set (escapeJavaScript util s)) \<longrightarrow>
         map_option (input_member \<circ> call_request)
           (handle_request (ReviewBotApi util region props) ''POST'' [''webhook''] body)
           \<noteq> Some body)
   \<and> (CHR 0x27 \<notin> set body \<longrightarrow>
         handle_request (ReviewBotApi util region props) ''POST'' [''webhook''] body =
           Some \<lparr>call_uri = ''arn:aws:apigateway:'' @ region @ '':states:action/StartExecution'',
                 call_request =
                   \<lparr>input_member = ''{'' @ [CHR 0x5C] @ ''"body'' @ [CHR 0x5C] @ ''": ''
                      @ escapeJavaScript util body @ ''}'',
                    stateMachineArn_member = stateMachineArn props\<rparr>\<rparr>)\<close>
proof -
  let ?api = "ReviewBotApi util region props"
  let ?cleaned = "filter (\<lambda>c. c \<noteq> CHR 0x27) body"
  have forwarded: \<open>handle_request ?api ''POST'' [''webhook''] body =
      Some \<lparr>call_uri = ''arn:aws:apigateway:'' @ region @ '':states:action/StartExecution'',
            call_request =
              \<lparr>input_member = ''{'' @ [CHR 0x5C] @ ''"body'' @ [CHR 0x5C] @ ''": ''
                 @ escapeJavaScript util ?cleaned @ ''}'',
               stateMachineArn_member = stateMachineArn props\<rparr>\<rparr>\<close>
    by (simp add: handle_request_ReviewBotApi requestTemplate_eq)
  have removed: "replace [CHR 0x27] [] body = ?cleaned"
    by (rule replace_char_removed)
  have lossy: "CHR 0x27 \<in> set body \<longrightarrow>
         ?cleaned \<noteq> body \<and> length ?cleaned < length body
         \<and> handle_request ?api ''POST'' [''webhook''] ?cleaned
             = handle_request ?api ''POST'' [''webhook''] body"
    by (simp add: handle_request_ReviewBotApi requestTemplate_eq filter_changes
        filter_shorter)
  have differs: "CHR 0x27 \<in> set body
        \<and> (\<forall>s. CHR 0x27 \<notin> set s \<longrightarrow> CHR 0x27 \<notin> set (escapeJavaScript util s)) \<longrightarrow>
         map_option (input_member \<circ> call_request)
           (handle_request ?api ''POST'' [''webhook''] body) \<noteq> Some body"
  proof
    assume h: "CHR 0x27 \<in> set body
        \<and> (\<forall>s. CHR 0x27 \<notin> set s \<longrightarrow> CHR 0x27 \<notin> set (escapeJavaScript util s))"
    let ?written = \<open>''{'' @ [CHR 0x5C] @ ''"body'' @ [CHR 0x5C] @ ''": ''
                 @ escapeJavaScript util ?cleaned @ ''}''\<close>
    have "CHR 0x27 \<notin> set ?cleaned" by simp
    with h have "CHR 0x27 \<notin> set (escapeJavaScript util ?cleaned)" by blast
    then have "CHR 0x27 \<notin> set ?written" by simp
    with h have "?written \<noteq> body" by metis
    then show "map_option (input_member \<circ> call_request)
           (handle_request ?api ''POST'' [''webhook''] body) \<noteq> Some body"
      unfolding forwarded by simp
  qed
  have kept: \<open>CHR 0x27 \<notin> set body \<longrightarrow>
         handle_request ?api ''POST'' [''webhook''] body =
           Some \<lparr>call_uri = ''arn:aws:apigateway:'' @ region @ '':states:action/StartExecution'',
                 call_request =
                   \<lparr>input_member = ''{'' @ [CHR 0x5C] @ ''"body'' @ [CHR 0x5C] @ ''": ''
                      @ escapeJavaScript util body @ ''}'',
                    stateMachineArn_member = stateMachineArn props\<rparr>\<rparr>\<close>
    by (simp add: handle_request_ReviewBotApi requestTemplate_eq filter_keeps)
  from forwarded removed lossy differs kept show ?thesis by blast
qed

theorem single_quotes_removed_then_escaped_witness:
  \<open>CHR 0x27 \<in> set ''{"title":"don't"}''
   \<and> map_option (input_member \<circ> call_request)
        (handle_request (ReviewBotApi example_util ''us-east-1'' \<lparr>stateMachineArn = ''arn:sm''\<rparr>)
           ''POST'' [''webhook''] ''{"title":"don't"}'') =
       Some (''{'' @ [CHR 0x5C] @ ''"body'' @ [CHR 0x5C] @ ''": {'' @ [CHR 0x5C] @ ''"title''
         @ [CHR 0x5C] @ ''":'' @ [CHR 0x5C] @ ''"dont'' @ [CHR 0x5C] @ ''"}}'')
   \<and> map_option (input_member \<circ> call_request)
        (handle_request (ReviewBotApi example_util ''us-east-1'' \<lparr>stateMachineArn = ''arn:sm''\<rparr>)
           ''POST'' [''webhook''] ''{"title":"don't"}'') \<noteq> Some ''{"title":"don't"}''
   \<and> handle_request (ReviewBotApi example_util ''us-east-1'' \<lparr>stateMachineArn = ''arn:sm''\<rparr>)
        ''POST'' [''webhook''] ''{"title":"dont"}''
       = handle_request (ReviewBotApi example_util ''us-east-1'' \<lparr>stateMachineArn = ''arn:sm''\<rparr>)
        ''POST'' [''webhook''] ''{"title":"don't"}''
   \<and> CHR 0x27 \<notin> set ''{"title":"do"}''
   \<and> map_option (input_member \<circ> call_request)
        (handle_request (ReviewBotApi example_util ''us-east-1'' \<lparr>stateMachineArn = ''arn:sm''\<rparr>)
           ''POST'' [''webhook''] ''{"title":"do"}'') =
       Some (''{'' @ [CHR 0x5C] @ ''"body'' @ [CHR 0x5C] @ ''": {'' @ [CHR 0x5C] @ ''"title''
         @ [CHR 0x5C] @ ''":'' @ [CHR 0x5C] @ ''"do'' @ [CHR 0x5C] @ ''"}}'')\<close>
  using single_quotes_removed_then_escaped [of example_util "''us-east-1''"
      "\<lparr>stateMachineArn = ''arn:sm''\<rparr>" \<open>''{"title":"don't"}''\<close>]
    single_quotes_removed_then_escaped [of example_util "''us-east-1''"
      "\<lparr>stateMachineArn = ''arn:sm''\<rparr>" \<open>''{"title":"do"}''\<close>]
    example_escape_keeps_quote_free
  by (simp add: example_util_def)

text \<open>
  Claim C4. The per-attempt analysis timeout (together with max chunk size, max
  concurrent chunk analyses, max retry attempts and the Analyzing-stage timeout) is a
  recognized configuration option of the deployment, i.e. it is supplied through the
  configuration surface rather than being a fixed constant of the worker definitions.

  This is not what the constructs do. With an analysis timeout of 30 seconds
  configured, and with one of 900 seconds, the chunk-processing worker is deployed with
  the same timeout of ten minutes.
\<close>

theorem analysis_timeout_ignores_configuration:
  "function_prop (stack_lambdas (AmazonBedrockPrReviewbotStack example_others example_util
       ''us-east-1'' example_options)) ''processChunk'' ''timeout''
     = Some (VDuration (Minutes 10))
   \<and> analysisTimeoutSeconds example_options = 30
   \<and> function_prop (stack_lambdas (AmazonBedrockPrReviewbotStack example_others example_util
       ''us-east-1'' (example_options\<lparr>analysisTimeoutSeconds := 900\<rparr>)))
       ''processChunk'' ''timeout''
     = Some (VDuration (Minutes 10))
   \<and> analysisTimeoutSeconds (example_options\<lparr>analysisTimeoutSeconds := 900\<rparr>) = 900
   \<and> toSeconds (Minutes 10) = 600"
  by (simp add: function_prop_def stack_lambdas_eq functions_ReviewBotLambda
      processChunk_entries commonProps_entries example_options_def)

text \<open>
  Claim C4, as amended. The per-attempt analysis timeout is a fixed constant of the
  worker definitions: whatever the stack's props and the other constructs are, the
  chunk-processing worker has a timeout of ten minutes and the chunk-splitting worker
  one of five minutes, and the timeout, the memory size and the environment of every
  worker are the constants of its definition; the environment holds the two logging
  variables and no option.
\<close>

theorem worker_settings_are_constants:
  fixes others :: "'cfg other_constructs"
  defines "lambdas \<equiv> (\<lambda>util region props.
     stack_lambdas (AmazonBedrockPrReviewbotStack others util region props))"
  shows "function_prop (lambdas util region props) ''processChunk'' ''timeout''
           = Some (VDuration (Minutes 10))
    \<and> function_prop (lambdas util region props) ''splitPr'' ''timeout''
           = Some (VDuration (Minutes 5))
    \<and> map (\<lambda>(key, fn). (key, map_of (fn_props fn) ''timeout'',
                             map_of (fn_props fn) ''memorySize''))
          (functions (lambdas util region props)) =
        [(''initialProcessing'', Some (VDuration (Seconds 30)), Some (VNumber 256)),
         (''splitPr'', Some (VDuration (Minutes 5)), Some (VNumber 512)),
         (''processChunk'', Some (VDuration (Minutes 10)), Some (VNumber 1024)),
         (''aggregateResults'', Some (VDuration (Minutes 5)), Some (VNumber 512)),
         (''postPrComment'', Some (VDuration (Minutes 2)), Some (VNumber 256)),
         (''sendSlackNotification'', Some (VDuration (Minutes 1)), Some (VNumber 256)),
         (''handleError'', Some (VDuration (Minutes 1)), Some (VNumber 256))]
    \<and> map (\<lambda>(key, fn). map_of (fn_props fn) ''environment'')
          (functions (lambdas util region props)) =
        replicate 7 (Some (VEnvironment
          [(''POWERTOOLS_SERVICE_NAME'', ''pr-reviewer''), (''LOG_LEVEL'', ''INFO'')]))"
proof -
  have timeouts: "function_prop (lambdas util region props) ''processChunk'' ''timeout''
                    = Some (VDuration (Minutes 10))"
    "function_prop (lambdas util region props) ''splitPr'' ''timeout''
                    = Some (VDuration (Minutes 5))"
    by (simp_all add: lambdas_def function_prop_def stack_lambdas_eq
        functions_ReviewBotLambda processChunk_entries splitPr_entries commonProps_entries)
  have table: "map (\<lambda>(key, fn). (key, map_of (fn_props fn) ''timeout'',
                             map_of (fn_props fn) ''memorySize''))
          (functions (lambdas util region props)) =
        [(''initialProcessing'', Some (VDuration (Seconds 30)), Some (VNumber 256)),
         (''splitPr'', Some (VDuration (Minutes 5)), Some (VNumber 512)),
         (''processChunk'', Some (VDuration (Minutes 10)), Some (VNumber 1024)),
         (''aggregateResults'', Some (VDuration (Minutes 5)), Some (VNumber 512)),
         (''postPrComment'', Some (VDuration (Minutes 2)), Some (VNumber 256)),
         (''sendSlackNotification'', Some (VDuration (Minutes 1)), Some (VNumber 256)),
         (''handleError'', Some (VDuration (Minutes 1)), Some (VNumber 256))]"
    by (simp add: lambdas_def stack_lambdas_eq functions_ReviewBotLambda function_entries
        commonProps_entries)
  have environments: "map (\<lambda>(key, fn). map_of (fn_props fn) ''environment'')
          (functions (lambdas util region props)) =
        replicate 7 (Some (VEnvironment
          [(''POWERTOOLS_SERVICE_NAME'', ''pr-reviewer''), (''LOG_LEVEL'', ''INFO'')]))"
    by (simp add: lambdas_def stack_lambdas_eq functions_ReviewBotLambda function_entries
        commonProps_entries numeral_eq_Suc)
  from timeouts table environments show ?thesis by simp
qed

theorem worker_settings_are_constants_witness:
  "function_prop (stack_lambdas (AmazonBedrockPrReviewbotStack example_others example_util
       ''eu-west-1'' (example_options\<lparr>analysisTimeoutSeconds := 45\<rparr>)))
       ''processChunk'' ''timeout''
     = Some (VDuration (Minutes 10))"
  using worker_settings_are_constants [of example_others example_util "''eu-west-1''"
      "example_options\<lparr>analysisTimeoutSeconds := 45\<rparr>"]
  by simp

text \<open>
  Claim C5. Every chunk-analysis attempt is bounded by a per-attempt timeout: the
  chunk-processing worker is configured with a finite timeout (10 minutes), so no single
  analysis attempt can run unboundedly.

  For all props the chunk-processing worker of the construct, and of the stack, has the
  timeout of ten minutes, which is 600 seconds.
\<close>

theorem processChunk_timeout:
  "function_prop (ReviewBotLambda props) ''processChunk'' ''timeout''
     = Some (VDuration (Minutes 10))
   \<and> toSeconds (Minutes 10) = 600
   \<and> function_prop (stack_lambdas (AmazonBedrockPrReviewbotStack others util region cfg))
        ''processChunk'' ''timeout'' = Some (VDuration (Minutes 10))"
  by (simp add: function_prop_def stack_lambdas_eq functions_ReviewBotLambda
      processChunk_entries commonProps_entries)

theorem processChunk_timeout_witness:
  "function_prop (ReviewBotLambda example_props) ''processChunk'' ''timeout''
     = Some (VDuration (Minutes 10))"
  using processChunk_timeout
          [of example_props example_others example_util "''us-east-1''" example_options]
  by simp

text \<open>
  Claim C6. The chunk-splitting worker is the only pipeline function provisioned with
  the graph-processing (networkx) layer; every other function carries at most the
  requests layer.

  When the two layers of the props are different layers, the networkx layer is among
  the layers of a function exactly for \<open>splitPr\<close>, whose layers are the requests layer
  and the networkx layer, and the layers of every other function are among the
  requests layer alone.
\<close>

theorem networkx_layer_only_on_splitPr:
  assumes "requestsLayer props \<noteq> networkxLayer props"
  shows "\<forall>(key, fn) \<in> set (functions (ReviewBotLambda props)).
           (networkxLayer props \<in> set (layers_of fn) \<longleftrightarrow> key = ''splitPr'')
           \<and> (key = ''splitPr'' \<longrightarrow> layers_of fn = [requestsLayer props, networkxLayer props])
           \<and> (key \<noteq> ''splitPr'' \<longrightarrow> set (layers_of fn) \<subseteq> {requestsLayer props})"
  using assms
  by (simp add: functions_ReviewBotLambda layers_of_def function_entries commonProps_entries)

theorem networkx_layer_only_on_splitPr_witness:
  "map (\<lambda>(key, fn). (key, layers_of fn)) (functions (ReviewBotLambda example_props)) =
     [(''initialProcessing'', [''RequestsLayer'']),
      (''splitPr'', [''RequestsLayer'', ''NetworkxLayer'']),
      (''processChunk'', [''RequestsLayer'']),
      (''aggregateResults'', []),
      (''postPrComment'', [''RequestsLayer'']),
      (''sendSlackNotification'', [''RequestsLayer'']),
      (''handleError'', [''RequestsLayer''])]"
proof -
  have distinct_layers: "requestsLayer example_props \<noteq> networkxLayer example_props"
    by (simp add: example_props_def)
  show ?thesis
    using networkx_layer_only_on_splitPr [OF distinct_layers]
    by (simp add: functions_ReviewBotLambda layers_of_def function_entries commonProps_entries
        example_props_def)
qed



text \<open>
  Claim C8. Within the Analyzing stage, and only there, chunk analyses are dispatched
  concurrently with a configured maximum number of in-flight analyses, and the stage
  joins on all dispatched chunk outcomes before proceeding: bounded fan-out with a
  single join barrier.

  Of every execution the orchestrator can reach from \<open>start eid\<close>: at most
  \<open>maxConcurrent\<close> analyses are in flight; outside the Analyzing stage (and a failed
  execution, whose dispatched analyses are left to end) none is in flight or waiting; a
  chunk can be dispatched in the Analyzing stage only, and only below the maximum; once
  the execution is past the stage every chunk has exactly one outcome; and the stage is
  left for Aggregating by the join or by the stage timeout only.
\<close>

theorem bounded_fan_out_single_join:
  assumes "run maxConcurrent evs (start eid) = Some e"
  shows "length (inFlight e) \<le> maxConcurrent
       \<and> (stage e \<noteq> Analyzing \<and> stage e \<noteq> Failed \<longrightarrow> inFlight e = [] \<and> waiting e = [])
       \<and> (\<forall>e'. step maxConcurrent Dispatch e = Some e' \<longrightarrow>
             stage e = Analyzing \<and> length (inFlight e) < maxConcurrent
             \<and> inFlight e' = inFlight e @ [hd (waiting e)]
             \<and> length (inFlight e') \<le> maxConcurrent)
       \<and> (stage e = Aggregating \<or> stage e = Publishing \<or> stage e = Notifying
            \<or> stage e = Succeeded \<longrightarrow>
             set (map fst (results e)) = set (chunks e) \<and> distinct (map fst (results e)))
       \<and> (\<forall>ev e'. stage e = Analyzing \<and> step maxConcurrent ev e = Some e'
             \<and> stage e' = Aggregating \<longrightarrow>
             (ev = Join \<and> waiting e = [] \<and> inFlight e = [] \<and> results e' = results e)
             \<or> ev = StageTimeout)"
proof -
  from assms have inv: "orchestrator_invariant maxConcurrent eid e"
    by (rule reachable_invariant)
  then have bound: "length (inFlight e) \<le> maxConcurrent"
    and idle: "stage e \<noteq> Analyzing \<and> stage e \<noteq> Failed \<longrightarrow> inFlight e = [] \<and> waiting e = []"
    and parts: "distinct (map fst (results e) @ inFlight e @ waiting e)"
      "set (map fst (results e)) \<union> set (inFlight e) \<union> set (waiting e) = set (chunks e)"
    by (simp_all add: orchestrator_invariant_def del: set_map)
  have dispatch: "\<forall>e'. step maxConcurrent Dispatch e = Some e' \<longrightarrow>
             stage e = Analyzing \<and> length (inFlight e) < maxConcurrent
             \<and> inFlight e' = inFlight e @ [hd (waiting e)]
             \<and> length (inFlight e') \<le> maxConcurrent"
    by (auto split: list.splits if_splits)
  have joined: "stage e = Aggregating \<or> stage e = Publishing \<or> stage e = Notifying
            \<or> stage e = Succeeded \<longrightarrow>
             set (map fst (results e)) = set (chunks e) \<and> distinct (map fst (results e))"
  proof
    assume past: "stage e = Aggregating \<or> stage e = Publishing \<or> stage e = Notifying
            \<or> stage e = Succeeded"
    with idle have "inFlight e = []" "waiting e = []" by auto
    with parts show "set (map fst (results e)) = set (chunks e) \<and> distinct (map fst (results e))"
      by simp
  qed
  have barrier: "\<forall>ev e'. stage e = Analyzing \<and> step maxConcurrent ev e = Some e'
             \<and> stage e' = Aggregating \<longrightarrow>
             (ev = Join \<and> waiting e = [] \<and> inFlight e = [] \<and> results e' = results e)
             \<or> ev = StageTimeout"
  proof (intro allI impI)
    fix ev e'
    assume h: "stage e = Analyzing \<and> step maxConcurrent ev e = Some e'
                 \<and> stage e' = Aggregating"
    then show "(ev = Join \<and> waiting e = [] \<and> inFlight e = [] \<and> results e' = results e)
                 \<or> ev = StageTimeout"
      by (cases ev) (auto split: if_splits list.splits)
  qed
  from bound idle dispatch joined barrier show ?thesis by blast
qed

theorem bounded_fan_out_single_join_witness:
  "length (inFlight
      \<lparr>executionId = ''exec-1'', stage = Analyzing, chunks = [0, 1, 2], waiting = [2],
       inFlight = [0, 1], results = [], reviewLocation = None\<rparr>) \<le> (2::nat)
   \<and> step 2 Dispatch
      \<lparr>executionId = ''exec-1'', stage = Analyzing, chunks = [0, 1, 2], waiting = [2],
       inFlight = [0, 1], results = [], reviewLocation = None\<rparr> = None
   \<and> run 2 example_events (start ''exec-1'') =
       Some \<lparr>executionId = ''exec-1'', stage = Succeeded, chunks = [0, 1, 2], waiting = [],
             inFlight = [], results = [(1, ok), (0, ok), (2, failed AnalysisFailure)],
             reviewLocation = Some ''https://code.example/pr/7#review-1''\<rparr>"
  using bounded_fan_out_single_join [OF run_example_analyzing]
    bounded_fan_out_single_join [OF run_example_events]
  by (simp add: run_example_events)

text \<open>
  Claim C9. createCloudWatchDashboard creates exactly one graph widget per entry of the
  functions map and adds every widget to the dashboard exactly once, grouped into rows
  of at most two widgets while preserving insertion order; for any odd number of
  functions (seven here) the last row holds a single widget and no widget is dropped or
  duplicated.

  For every state of the construct: one dashboard is added; there is one widget per
  entry, titled after the entry's key; the rows of the dashboard, one after the other,
  are these widgets in the order of the entries; a row has one or two widgets, and
  every row but the last has two; there are half as many rows as entries, rounded up;
  and with an odd number of entries the last row has one widget. The dashboard of the
  construct itself has four rows, the last with the widget of \<open>handleError\<close> alone.
\<close>

theorem dashboard_rows_of_two:
  "(let d = last (dashboards (createCloudWatchDashboard this));
        widgets = map function_widget (functions this)
    in length (dashboards (createCloudWatchDashboard this)) = length (dashboards this) + 1
       \<and> length widgets = length (functions this)
       \<and> map title widgets = map (\<lambda>(name, fn). name @ '' Metrics'') (functions this)
       \<and> concat (rows d) = widgets
       \<and> (\<forall>r \<in> set (rows d). length r = 1 \<or> length r = 2)
       \<and> (\<forall>r \<in> set (butlast (rows d)). length r = 2)
       \<and> length (rows d) = (length (functions this) + 1) div 2
       \<and> (odd (length (functions this)) \<longrightarrow> length (last (rows d)) = 1))
   \<and> map (map title) (rows (last (dashboards (ReviewBotLambda props)))) =
       [[''initialProcessing Metrics'', ''splitPr Metrics''],
        [''processChunk Metrics'', ''aggregateResults Metrics''],
        [''postPrComment Metrics'', ''sendSlackNotification Metrics''],
        [''handleError Metrics'']]"
proof -
  let ?widgets = "map function_widget (functions this)"
  have d: "last (dashboards (createCloudWatchDashboard this))
             = \<lparr>dashboardName = ''PR-ReviewBot-Metrics'', rows = rows_of_two ?widgets\<rparr>"
    by (simp add: dashboard_of_createCloudWatchDashboard)
  have titles: "map title ?widgets = map (\<lambda>(name, fn). name @ '' Metrics'') (functions this)"
    by (simp add: function_widget_def case_prod_unfold)
  have sizes: "\<forall>r \<in> set (rows_of_two ?widgets). length r = 1 \<or> length r = 2"
    using rows_of_two_lengths by blast
  have full: "\<forall>r \<in> set (butlast (rows_of_two ?widgets)). length r = 2"
    using butlast_rows_of_two by blast
  have odd_last: "odd (length (functions this))
                    \<longrightarrow> length (last (rows_of_two ?widgets)) = 1"
    using last_rows_of_two_odd [of ?widgets] by simp
  have one_more: "length (dashboards (createCloudWatchDashboard this))
                    = length (dashboards this) + 1"
    by (simp add: dashboard_of_createCloudWatchDashboard)
  have all_widgets: "concat (rows_of_two ?widgets) = ?widgets"
    by (rule concat_rows_of_two)
  have n_rows: "length (rows_of_two ?widgets) = (length (functions this) + 1) div 2"
    by (simp add: length_rows_of_two)
  have n_widgets: "length ?widgets = length (functions this)"
    by simp
  show ?thesis
    unfolding Let_def d dashboard.simps
    by (intro conjI one_more n_widgets titles all_widgets sizes full n_rows odd_last
        rows_ReviewBotLambda)
qed

theorem dashboard_rows_of_two_witness:
  "map (map title) (rows (last (dashboards (createCloudWatchDashboard
      ((ReviewBotLambda example_props)\<lparr>dashboards := []\<rparr>))))) =
     [[''initialProcessing Metrics'', ''splitPr Metrics''],
      [''processChunk Metrics'', ''aggregateResults Metrics''],
      [''postPrComment Metrics'', ''sendSlackNotification Metrics''],
      [''handleError Metrics'']]
   \<and> odd (length (functions ((ReviewBotLambda example_props)\<lparr>dashboards := []\<rparr>)))
   \<and> length (last (rows (last (dashboards (createCloudWatchDashboard
      ((ReviewBotLambda example_props)\<lparr>dashboards := []\<rparr>)))))) = 1"
  using dashboard_rows_of_two [of "(ReviewBotLambda example_props)\<lparr>dashboards := []\<rparr>"]
  by (simp add: Let_def dashboard_of_createCloudWatchDashboard functions_ReviewBotLambda
      function_widget_def)

text \<open>
  Claim C10. Every Lambda function provisioned by ReviewBotLambda satisfies the
  shared-configuration invariant: Python 3.12 runtime, the single IAM role passed in
  props, tracing disabled, one-month log retention, and an environment containing
  POWERTOOLS_SERVICE_NAME='pr-reviewer' and LOG_LEVEL='INFO'; per-function definitions
  override only name, description, code, handler, timeout, memory, layers, and (for the
  publisher) VPC placement.

  For every entry of the \<open>functions\<close> object the five shared props have these values;
  every prop outside the function's own props (the seven named ones, and for
  \<open>postPrComment\<close> the three of its VPC placement) is as in the common props; and none
  of the own props is a common prop, so no common value is overridden.
\<close>

theorem shared_configuration:
  "\<forall>(key, fn) \<in> set (functions (ReviewBotLambda props)).
     map_of (fn_props fn) ''runtime'' = Some (VRuntime PYTHON_3_12)
     \<and> map_of (fn_props fn) ''role'' = Some (VRole (role props))
     \<and> map_of (fn_props fn) ''tracing'' = Some (VTracing DISABLED)
     \<and> map_of (fn_props fn) ''logRetention'' = Some (VRetention ONE_MONTH)
     \<and> (\<exists>env. map_of (fn_props fn) ''environment'' = Some (VEnvironment env)
           \<and> map_of env ''POWERTOOLS_SERVICE_NAME'' = Some ''pr-reviewer''
           \<and> map_of env ''LOG_LEVEL'' = Some ''INFO'')
     \<and> (\<forall>p. p \<notin> own_props key \<longrightarrow> map_of (fn_props fn) p = map_of (commonProps props) p)
     \<and> (\<forall>p \<in> own_props key. map_of (commonProps props) p = None)"
  by (simp add: functions_ReviewBotLambda function_entries commonProps_entries own_props_def)

theorem shared_configuration_witness:
  "map (\<lambda>(key, fn). (map_of (fn_props fn) ''runtime'', map_of (fn_props fn) ''role'',
                      map_of (fn_props fn) ''tracing'', map_of (fn_props fn) ''logRetention''))
     (functions (ReviewBotLambda example_props)) =
   replicate 7 (Some (VRuntime PYTHON_3_12), Some (VRole ''ReviewBotRole''),
                Some (VTracing DISABLED), Some (VRetention ONE_MONTH))
   \<and> map_of (postPrComment_props example_props) ''vpcSubnets''
       = Some (VSubnetSelection PRIVATE_WITH_EGRESS)
   \<and> ''vpcSubnets'' \<in> own_props ''postPrComment''
   \<and> ''vpcSubnets'' \<notin> own_props ''handleError''
   \<and> map_of (handleError_props example_props) ''vpcSubnets'' = None"
  using shared_configuration [of example_props]
  by (simp add: functions_ReviewBotLambda function_entries commonProps_entries own_props_def
      example_props_def numeral_eq_Suc)

end
